theory Spec2Isabelle
  imports Complex_Main "HOL-Library.Multiset"
begin

section \<open>Python values and exceptions\<close>

text \<open>
  The notebook reads \<^verbatim>\<open>annotations.json\<close> with \<^verbatim>\<open>json.load\<close>. The loaded
  value is a tree of Python objects: \<^verbatim>\<open>None\<close>, booleans, integers, floats, strings,
  lists and dictionaries with string keys. A float is kept by its exact value when it is
  finite. A dictionary is an association list read through \<open>map_of\<close>.
\<close>

datatype pyfloat = Finite rat | Infinite | NaN

datatype json =
    JNull
  | JBool bool
  | JInt int
  | JFloat pyfloat
  | JStr string
  | JArr "json list"
  | JObj "(string \<times> json) list"

text \<open>The built-in exceptions the flattening cell can raise. The notebook defines no
  exception class of its own.\<close>

datatype py_error =
    KeyError string
  | TypeError
  | ValueError
  | OverflowError
  | ZeroDivisionError

text \<open>Sequencing of steps that may raise: the first exception ends the computation.\<close>

definition and_then :: "'x + 'r \<Rightarrow> ('r \<Rightarrow> 'x + 's) \<Rightarrow> 'x + 's" where
  "and_then step rest = (case step of Inr v \<Rightarrow> rest v | Inl raised \<Rightarrow> Inl raised)"

text \<open>\<^verbatim>\<open>v[k]\<close> for a string key \<open>k\<close>: a dictionary looks the key up and raises
  \<^verbatim>\<open>KeyError\<close> when it is absent; every other value raises \<^verbatim>\<open>TypeError\<close>
  (lists and strings take integer indices only, the rest is not subscriptable).\<close>

fun subscript :: "json \<Rightarrow> string \<Rightarrow> py_error + json" where
  "subscript (JObj kvs) k = (case map_of kvs k of None \<Rightarrow> Inl (KeyError k) | Some v \<Rightarrow> Inr v)"
| "subscript _ k = Inl TypeError"

text \<open>\<^verbatim>\<open>for v in c\<close>: a list yields its elements, a dictionary its keys, a string its
  characters; the other values are not iterable.\<close>

fun py_iter :: "json \<Rightarrow> py_error + json list" where
  "py_iter (JArr vs) = Inr vs"
| "py_iter (JObj kvs) = Inr (map JStr (rev (remdups (rev (map fst kvs)))))"
| "py_iter (JStr s) = Inr (map (\<lambda>c. JStr [c]) s)"
| "py_iter _ = Inl TypeError"

text \<open>\<^verbatim>\<open>int(v)\<close>: an integer is returned as it is, a boolean is 0 or 1, a finite float
  is truncated towards zero, an infinity raises \<^verbatim>\<open>OverflowError\<close>, a NaN
  \<^verbatim>\<open>ValueError\<close>. A string is parsed as an integer literal by the interpreter; the
  parser is the parameter \<open>parse\<close> (\<open>None\<close> when the text is no integer literal, which
  raises \<^verbatim>\<open>ValueError\<close>). \<^verbatim>\<open>None\<close>, lists and dictionaries raise
  \<^verbatim>\<open>TypeError\<close>.\<close>

definition trunc :: "rat \<Rightarrow> int" where
  "trunc q = (if q < 0 then \<lceil>q\<rceil> else \<lfloor>q\<rfloor>)"

fun py_int :: "(string \<Rightarrow> int option) \<Rightarrow> json \<Rightarrow> py_error + int" where
  "py_int parse (JInt i) = Inr i"
| "py_int parse (JBool b) = Inr (if b then 1 else 0)"
| "py_int parse (JFloat (Finite q)) = Inr (trunc q)"
| "py_int parse (JFloat Infinite) = Inl OverflowError"
| "py_int parse (JFloat NaN) = Inl ValueError"
| "py_int parse (JStr s) = (case parse s of None \<Rightarrow> Inl ValueError | Some i \<Rightarrow> Inr i)"
| "py_int parse _ = Inl TypeError"

section \<open>Flattening the annotations\<close>

text \<open>A record of the flat list: the dictionary
  \<^verbatim>\<open>{'image': img_name, 'label': label, 'bbox': [x, y, w, h]}\<close>. The list of four
  integers is a quadruple.\<close>

record ('i, 'l) crop_rec =
  rec_image :: 'i
  rec_label :: 'l
  rec_bbox :: "int \<times> int \<times> int \<times> int"

text \<open>\<^verbatim>\<open>int(obj['bbox'][k])\<close>.\<close>

definition coord :: "(string \<Rightarrow> int option) \<Rightarrow> json \<Rightarrow> string \<Rightarrow> py_error + int" where
  "coord parse obj k =
     and_then (subscript obj ''bbox'') (\<lambda>b. and_then (subscript b k) (py_int parse))"

text \<open>The body of the inner loop, up to the record that is appended: the label is read
  first, then the four coordinates from left to right.\<close>

definition record_of ::
  "(string \<Rightarrow> int option) \<Rightarrow> json \<Rightarrow> json \<Rightarrow> py_error + (json, json) crop_rec" where
  "record_of parse img_name obj =
     and_then (subscript obj ''type'') (\<lambda>label.
     and_then (coord parse obj ''x'') (\<lambda>x.
     and_then (coord parse obj ''y'') (\<lambda>y.
     and_then (coord parse obj ''w'') (\<lambda>w.
     and_then (coord parse obj ''h'') (\<lambda>h.
       Inr \<lparr>rec_image = img_name, rec_label = label, rec_bbox = (x, y, w, h)\<rparr>)))))"

text \<open>\<^verbatim>\<open>for obj in entry['objects']\<close>, appending to \<open>dataset_records\<close>.\<close>

fun objects_loop ::
  "(string \<Rightarrow> int option) \<Rightarrow> json \<Rightarrow> json list \<Rightarrow> (json, json) crop_rec list
     \<Rightarrow> py_error + (json, json) crop_rec list" where
  "objects_loop parse img_name [] acc = Inr acc"
| "objects_loop parse img_name (obj # objs) acc =
     and_then (record_of parse img_name obj) (\<lambda>r. objects_loop parse img_name objs (acc @ [r]))"

text \<open>The body of the outer loop for one entry.\<close>

definition entry_step ::
  "(string \<Rightarrow> int option) \<Rightarrow> json \<Rightarrow> (json, json) crop_rec list
     \<Rightarrow> py_error + (json, json) crop_rec list" where
  "entry_step parse entry acc =
     and_then (subscript entry ''image_name'') (\<lambda>img_name.
     and_then (subscript entry ''objects'') (\<lambda>objects.
     and_then (py_iter objects) (\<lambda>objs. objects_loop parse img_name objs acc)))"

text \<open>\<^verbatim>\<open>for entry in annotations\<close>.\<close>

fun entries_loop ::
  "(string \<Rightarrow> int option) \<Rightarrow> json list \<Rightarrow> (json, json) crop_rec list
     \<Rightarrow> py_error + (json, json) crop_rec list" where
  "entries_loop parse [] acc = Inr acc"
| "entries_loop parse (entry # entries) acc =
     and_then (entry_step parse entry acc) (\<lambda>acc'. entries_loop parse entries acc')"

definition dataset_records ::
  "(string \<Rightarrow> int option) \<Rightarrow> json \<Rightarrow> py_error + (json, json) crop_rec list" where
  "dataset_records parse annotations =
     and_then (py_iter annotations) (\<lambda>entries. entries_loop parse entries [])"

text \<open>The data model of the annotation file: an entry is an image name with its object
  annotations, an object annotation a label with a box \<open>x, y, w, h\<close>.\<close>

datatype object_annotation = ObjectAnnotation string int int int int

datatype annotation_entry = AnnotationEntry string "object_annotation list"

text \<open>A dictionary holds the integer \<open>n\<close> under the key \<open>k\<close>, as a value that
  \<^verbatim>\<open>int()\<close> converts to \<open>n\<close>.\<close>

definition holds_int :: "(string \<Rightarrow> int option) \<Rightarrow> json \<Rightarrow> string \<Rightarrow> int \<Rightarrow> bool" where
  "holds_int parse b k n =
     (case b of
        JObj kvs \<Rightarrow> (case map_of kvs k of None \<Rightarrow> False | Some v \<Rightarrow> py_int parse v = Inr n)
      | _ \<Rightarrow> False)"

text \<open>A loaded value is a well-formed object annotation: a dictionary with the label under
  \<^verbatim>\<open>type\<close> and, under \<^verbatim>\<open>bbox\<close>, a dictionary with the four coordinates. Other
  keys may be present.\<close>

fun encodes_object :: "(string \<Rightarrow> int option) \<Rightarrow> json \<Rightarrow> object_annotation \<Rightarrow> bool" where
  "encodes_object parse (JObj kvs) (ObjectAnnotation ty x y w h) =
     (map_of kvs ''type'' = Some (JStr ty) \<and>
      (case map_of kvs ''bbox'' of
         None \<Rightarrow> False
       | Some b \<Rightarrow> holds_int parse b ''x'' x \<and> holds_int parse b ''y'' y \<and>
                  holds_int parse b ''w'' w \<and> holds_int parse b ''h'' h))"
| "encodes_object parse _ _ = False"

fun encodes_entry :: "(string \<Rightarrow> int option) \<Rightarrow> json \<Rightarrow> annotation_entry \<Rightarrow> bool" where
  "encodes_entry parse (JObj kvs) (AnnotationEntry name objs) =
     (map_of kvs ''image_name'' = Some (JStr name) \<and>
      (case map_of kvs ''objects'' of
         Some (JArr os) \<Rightarrow> list_all2 (encodes_object parse) os objs
       | _ \<Rightarrow> False))"
| "encodes_entry parse _ _ = False"

text \<open>The records the contract expects: one per object annotation, entry after entry, the
  objects of an entry in their order.\<close>

fun record_for :: "string \<Rightarrow> object_annotation \<Rightarrow> (json, json) crop_rec" where
  "record_for name (ObjectAnnotation ty x y w h) =
     \<lparr>rec_image = JStr name, rec_label = JStr ty, rec_bbox = (x, y, w, h)\<rparr>"

fun entry_records :: "annotation_entry \<Rightarrow> (json, json) crop_rec list" where
  "entry_records (AnnotationEntry name objs) = map (record_for name) objs"

fun object_count :: "annotation_entry \<Rightarrow> nat" where
  "object_count (AnnotationEntry name objs) = length objs"



text \<open>Loaded values in the layout of the annotation file, to write inputs down: a box
  with integer coordinates, an object with its label and box, an entry with its image
  name and objects.\<close>

definition box_json :: "int \<Rightarrow> int \<Rightarrow> int \<Rightarrow> int \<Rightarrow> json" where
  "box_json x y w h = JObj [(''x'', JInt x), (''y'', JInt y), (''w'', JInt w), (''h'', JInt h)]"

definition object_json :: "string \<Rightarrow> json \<Rightarrow> json" where
  "object_json ty box = JObj [(''type'', JStr ty), (''bbox'', box)]"

definition entry_json :: "string \<Rightarrow> json list \<Rightarrow> json" where
  "entry_json name objs = JObj [(''image_name'', JStr name), (''objects'', JArr objs)]"

section \<open>Shuffling and splitting\<close>


definition swap :: "nat \<Rightarrow> nat \<Rightarrow> 'a list \<Rightarrow> 'a list" where
  "swap i j x = (x[i := x ! j])[j := x ! i]"

fun shuffle_loop :: "('g \<Rightarrow> nat \<Rightarrow> nat \<times> 'g) \<Rightarrow> nat \<Rightarrow> 'g \<Rightarrow> 'a list \<Rightarrow> 'a list \<times> 'g" where
  "shuffle_loop randbelow 0 g x = (x, g)"
| "shuffle_loop randbelow (Suc i) g x =
     (case randbelow g (Suc i + 1) of
        (j, g') \<Rightarrow> shuffle_loop randbelow i g' (swap (Suc i) j x))"

definition shuffle :: "('g \<Rightarrow> nat \<Rightarrow> nat \<times> 'g) \<Rightarrow> 'g \<Rightarrow> 'a list \<Rightarrow> 'a list \<times> 'g" where
  "shuffle randbelow g x = shuffle_loop randbelow (length x - 1) g x"

text \<open>The numbers a shuffle of \<open>i + 1\<close> elements draws, in the order drawn.\<close>

fun draws :: "('g \<Rightarrow> nat \<Rightarrow> nat \<times> 'g) \<Rightarrow> nat \<Rightarrow> 'g \<Rightarrow> nat list" where
  "draws randbelow 0 g = []"
| "draws randbelow (Suc i) g =
     (case randbelow g (Suc i + 1) of (j, g') \<Rightarrow> j # draws randbelow i g')"

text \<open>A slice \<^verbatim>\<open>xs[lo:hi]\<close> with integer bounds: a negative bound counts from the
  end, every bound is clamped to the list, and the slice is empty when it starts at or
  after its end. An omitted bound is \<open>None\<close>.\<close>

definition clamp_index :: "nat \<Rightarrow> int \<Rightarrow> nat" where
  "clamp_index n i = (if i < 0 then nat (max 0 (int n + i)) else min n (nat i))"

definition py_slice :: "'a list \<Rightarrow> int option \<Rightarrow> int option \<Rightarrow> 'a list" where
  "py_slice xs lo hi =
     (let n = length xs;
          l = (case lo of None \<Rightarrow> 0 | Some i \<Rightarrow> clamp_index n i);
          h = (case hi of None \<Rightarrow> n | Some i \<Rightarrow> clamp_index n i)
      in drop l (take h xs))"

text \<open>What a call of \<open>split_dataset\<close> leaves behind: the three lists it returns, the
  contents of the caller's list after the call, and the state of the generator.\<close>

record ('g, 'a) split_outcome =
  train_records :: "'a list"
  val_records :: "'a list"
  test_records :: "'a list"
  records_after :: "'a list"
  rng_after :: 'g

text \<open>\<open>split_dataset\<close>. The ratios are Python floats; here they are rationals, and the
  products and the sum are exact, so the rounding of floating-point arithmetic is left
  out. \<^verbatim>\<open>int()\<close> truncates towards zero. The defaults of the notebook are
  \<open>train_ratio = 0.7\<close> and \<open>val_ratio = 0.15\<close>.\<close>

definition split_dataset ::
  "('g \<Rightarrow> nat \<Rightarrow> nat \<times> 'g) \<Rightarrow> 'g \<Rightarrow> 'a list \<Rightarrow> rat \<Rightarrow> rat \<Rightarrow> ('g, 'a) split_outcome" where
  "split_dataset randbelow g records train_ratio val_ratio =
     (case shuffle randbelow g records of
        (records, g') \<Rightarrow>
          let n = length records;
              train_end = trunc (of_nat n * train_ratio);
              val_end = trunc (of_nat n * (train_ratio + val_ratio))
          in \<lparr>train_records = py_slice records None (Some train_end),
              val_records = py_slice records (Some train_end) (Some val_end),
              test_records = py_slice records (Some val_end) None,
              records_after = records,
              rng_after = g'\<rparr>)"

text \<open>A generator to run the model on concrete inputs: its state is a counter, and a
  draw below \<open>n\<close> is the counter modulo \<open>n\<close>.\<close>

definition counter_randbelow :: "nat \<Rightarrow> nat \<Rightarrow> nat \<times> nat" where
  "counter_randbelow g n = (g mod n, Suc g)"

section \<open>Sampling weights\<close>

text \<open>\<^verbatim>\<open>Counter(xs)\<close> counts the elements of a list one by one; a key never seen
  reads as 0.\<close>

definition Counter :: "'l list \<Rightarrow> 'l \<Rightarrow> nat" where
  "Counter xs = fold (\<lambda>x c. c(x := c x + 1)) xs (\<lambda>_. 0)"

text \<open>\<^verbatim>\<open>a / b\<close> raises \<^verbatim>\<open>ZeroDivisionError\<close> when \<open>b\<close> is 0. The quotient is
  exact here.\<close>

definition truediv :: "rat \<Rightarrow> nat \<Rightarrow> py_error + rat" where
  "truediv a b = (if b = 0 then Inl ZeroDivisionError else Inr (a / of_nat b))"

text \<open>The list comprehension \<^verbatim>\<open>[1.0 / label_counts[r['label']] for r in train_records]\<close>.\<close>

fun weights_of :: "('l \<Rightarrow> nat) \<Rightarrow> ('i, 'l) crop_rec list \<Rightarrow> py_error + rat list" where
  "weights_of label_counts [] = Inr []"
| "weights_of label_counts (r # rs) =
     and_then (truediv 1 (label_counts (rec_label r))) (\<lambda>w.
     and_then (weights_of label_counts rs) (\<lambda>ws. Inr (w # ws)))"

text \<open>The cell that computes \<open>weights\<close> from the training list \<open>train_records\<close>, here
  \<open>train\<close>.\<close>

definition weights :: "('i, 'l) crop_rec list \<Rightarrow> py_error + rat list" where
  "weights train =
     (let train_labels = map rec_label train;
          label_counts = Counter train_labels
      in weights_of label_counts train)"

text \<open>The weights of the records of one label, summed.\<close>

definition label_total :: "'l \<Rightarrow> ('i, 'l) crop_rec list \<Rightarrow> rat list \<Rightarrow> rat" where
  "label_total l train ws = sum_list (map snd (filter (\<lambda>(r, w). rec_label r = l) (zip train ws)))"

section \<open>Fetching a crop\<close>

text \<open>
  \<open>MalariaDataset.__getitem__\<close>. Opening the file and converting it to RGB
  (\<open>open_rgb\<close>), cropping (\<open>crop\<close>) and the transform are calls into the imaging
  libraries: they are parameters, each returning the library's exception or its result.
  \<open>label2idx\<close> is the global dictionary from labels to indices.
\<close>

datatype ('e, 'l) getitem_error = IndexError | LibraryError 'e | LabelKeyError 'l

text \<open>\<^verbatim>\<open>records[idx]\<close>: a negative index counts from the end.\<close>

definition list_item :: "'a list \<Rightarrow> int \<Rightarrow> ('e, 'l) getitem_error + 'a" where
  "list_item xs idx =
     (if 0 \<le> idx \<and> idx < int (length xs) then Inr (xs ! nat idx)
      else if idx < 0 \<and> - int (length xs) \<le> idx then Inr (xs ! nat (int (length xs) + idx))
      else Inl IndexError)"

definition lib :: "'e + 'a \<Rightarrow> ('e, 'l) getitem_error + 'a" where
  "lib m = (case m of Inl e \<Rightarrow> Inl (LibraryError e) | Inr v \<Rightarrow> Inr v)"

text \<open>\<^verbatim>\<open>if self.transform: img = self.transform(img)\<close>.\<close>

definition run_transform :: "('img \<Rightarrow> 'e + 'img) option \<Rightarrow> 'img \<Rightarrow> 'e + 'img" where
  "run_transform transform img = (case transform of None \<Rightarrow> Inr img | Some t \<Rightarrow> t img)"

definition getitem ::
  "('i \<Rightarrow> 'e + 'img) \<Rightarrow> ('img \<Rightarrow> int \<times> int \<times> int \<times> int \<Rightarrow> 'e + 'img) \<Rightarrow>
   ('img \<Rightarrow> 'e + 'img) option \<Rightarrow> ('l \<Rightarrow> nat option) \<Rightarrow>
   ('i, 'l) crop_rec list \<Rightarrow> int \<Rightarrow> ('e, 'l) getitem_error + 'img \<times> nat" where
  "getitem open_rgb crop transform label2idx records idx =
     and_then (list_item records idx) (\<lambda>rec.
     and_then (lib (open_rgb (rec_image rec))) (\<lambda>img.
     case rec_bbox rec of (x, y, w, h) \<Rightarrow>
     and_then (lib (crop img (x, y, x + w, y + h))) (\<lambda>img.
     and_then (lib (run_transform transform img)) (\<lambda>img.
     case label2idx (rec_label rec) of
       None \<Rightarrow> Inl (LabelKeyError (rec_label rec))
     | Some label \<Rightarrow> Inr (img, label)))))"

text \<open>An image store and a crop to run the model on concrete inputs. An image is its
  size, width and height. Opening a name that the store lacks raises; the crop returns
  an image of the size of the box whatever the size of the image, padding what lies
  outside, as the imaging library's crop does.\<close>

definition store_open :: "(string \<times> nat \<times> nat) list \<Rightarrow> string \<Rightarrow> string + nat \<times> nat" where
  "store_open store name =
     (case map_of store name of None \<Rightarrow> Inl ''FileNotFoundError'' | Some img \<Rightarrow> Inr img)"

definition padded_crop :: "nat \<times> nat \<Rightarrow> int \<times> int \<times> int \<times> int \<Rightarrow> string + nat \<times> nat" where
  "padded_crop img box =
     (case box of (left, upper, right, lower) \<Rightarrow> Inr (nat (right - left), nat (lower - upper)))"

text \<open>The box of a record lies within an image of the given size.\<close>

definition box_within :: "int \<times> int \<times> int \<times> int \<Rightarrow> nat \<times> nat \<Rightarrow> bool" where
  "box_within b img =
     (case b of (x, y, w, h) \<Rightarrow>
        0 \<le> x \<and> 0 \<le> y \<and> 0 \<le> w \<and> 0 \<le> h \<and> x + w \<le> int (fst img) \<and> y + h \<le> int (snd img))"

section \<open>Evaluation reporting\<close>

text \<open>
  Modelled from the spec: \<^verbatim>\<open>confusion_matrix\<close> is a function of scikit-learn, which
  the notebook imports and calls on the accumulated labels; its code is not part of the
  repository. The spec: the component consumes the accumulated (true label, predicted
  label) pairs and computes a K by K confusion matrix where \<open>confusion[i][j]\<close> counts
  true label \<open>i\<close> predicted as \<open>j\<close>. The notebook's call passes no class count, so
  \<open>K\<close> is a parameter here.
\<close>

definition confusion_matrix :: "nat \<Rightarrow> (nat \<times> nat) list \<Rightarrow> nat list list" where
  "confusion_matrix K pairs =
     map (\<lambda>i. map (\<lambda>j. length (filter (\<lambda>(t, p). t = i \<and> p = j) pairs)) [0..<K]) [0..<K]"

text \<open>
  Modelled from the spec: \<^verbatim>\<open>accuracy_score\<close> is a function of scikit-learn as well.
  The accuracy is the fraction of the pairs whose two labels agree; a sequence without
  pairs has no such fraction, which is \<open>None\<close> here.
\<close>

definition accuracy_score :: "(nat \<times> nat) list \<Rightarrow> rat option" where
  "accuracy_score pairs =
     (if pairs = [] then None
      else Some (of_nat (length (filter (\<lambda>(t, p). t = p) pairs)) / of_nat (length pairs)))"

section \<open>Properties of the flattener\<close>

lemma coord_holds:
  "map_of kvs ''bbox'' = Some b \<Longrightarrow> holds_int parse b k n \<Longrightarrow> coord parse (JObj kvs) k = Inr n"
  by (auto simp: coord_def holds_int_def and_then_def split: json.splits option.splits)

lemma record_of_encoded:
  "encodes_object parse j oa \<Longrightarrow> record_of parse img j = Inr ((record_for name oa)\<lparr>rec_image := img\<rparr>)"
  by (cases "(parse, j, oa)" rule: encodes_object.cases)
     (auto simp: record_of_def and_then_def coord_holds split: option.splits)

lemma objects_loop_encoded:
  "list_all2 (encodes_object parse) os objs \<Longrightarrow>
   objects_loop parse (JStr name) os acc = Inr (acc @ map (record_for name) objs)"
proof (induction os objs arbitrary: acc rule: list_all2_induct)
  case Nil
  then show ?case by simp
next
  case (Cons j os oa objs)
  have "record_of parse (JStr name) j = Inr (record_for name oa)"
    using record_of_encoded [OF Cons.hyps(1), of "JStr name" name] by (cases oa) simp
  then show ?case by (simp add: and_then_def Cons.IH)
qed

lemma entry_step_encoded:
  "encodes_entry parse j e \<Longrightarrow> entry_step parse j acc = Inr (acc @ entry_records e)"
  by (cases "(parse, j, e)" rule: encodes_entry.cases)
     (auto simp: entry_step_def and_then_def objects_loop_encoded split: option.splits json.splits)

lemma entries_loop_encoded:
  "list_all2 (encodes_entry parse) js es \<Longrightarrow>
   entries_loop parse js acc = Inr (acc @ concat (map entry_records es))"
proof (induction js es arbitrary: acc rule: list_all2_induct)
  case Nil
  then show ?case by simp
next
  case (Cons j js e es)
  then show ?case by (simp add: and_then_def entry_step_encoded)
qed

lemma length_entry_records: "length (entry_records e) = object_count e"
  by (cases e) simp

lemma length_concat_entry_records:
  "length (concat (map entry_records es)) = sum_list (map object_count es)"
  by (induction es) (simp_all add: length_entry_records)

text \<open>
  C4. When the loaded annotations are a list of well-formed entries, the flattener
  returns the records of the first entry's objects in their order, then those of the
  second entry, and so on: one record per object annotation, as many as there are object
  annotations in total, each with the image name of its entry and the label and box of
  its object.
\<close>

theorem flatten_one_record_per_object:
  "list_all2 (encodes_entry parse) js es \<Longrightarrow>
   dataset_records parse (JArr js) = Inr (concat (map entry_records es)) \<and>
   length (concat (map entry_records es)) = sum_list (map object_count es)"
  by (simp add: dataset_records_def and_then_def entries_loop_encoded length_concat_entry_records)

theorem flatten_one_record_per_object_witness:
  "list_all2 (encodes_entry (\<lambda>s. None))
     [entry_json ''a.png'' [object_json ''ring'' (box_json 1 2 3 4),
                            object_json ''schizont'' (box_json 5 6 7 8)],
      entry_json ''b.png'' [object_json ''ring'' (box_json 9 10 11 12)]]
     [AnnotationEntry ''a.png'' [ObjectAnnotation ''ring'' 1 2 3 4,
                                 ObjectAnnotation ''schizont'' 5 6 7 8],
      AnnotationEntry ''b.png'' [ObjectAnnotation ''ring'' 9 10 11 12]] \<and>
   dataset_records (\<lambda>s. None)
     (JArr [entry_json ''a.png'' [object_json ''ring'' (box_json 1 2 3 4),
                                  object_json ''schizont'' (box_json 5 6 7 8)],
            entry_json ''b.png'' [object_json ''ring'' (box_json 9 10 11 12)]]) =
   Inr [\<lparr>rec_image = JStr ''a.png'', rec_label = JStr ''ring'', rec_bbox = (1, 2, 3, 4)\<rparr>,
        \<lparr>rec_image = JStr ''a.png'', rec_label = JStr ''schizont'', rec_bbox = (5, 6, 7, 8)\<rparr>,
        \<lparr>rec_image = JStr ''b.png'', rec_label = JStr ''ring'', rec_bbox = (9, 10, 11, 12)\<rparr>] \<and>
   sum_list (map object_count
     [AnnotationEntry ''a.png'' [ObjectAnnotation ''ring'' 1 2 3 4,
                                 ObjectAnnotation ''schizont'' 5 6 7 8],
      AnnotationEntry ''b.png'' [ObjectAnnotation ''ring'' 9 10 11 12]]) = 3"
proof -
  let ?js = "[entry_json ''a.png'' [object_json ''ring'' (box_json 1 2 3 4),
                                    object_json ''schizont'' (box_json 5 6 7 8)],
              entry_json ''b.png'' [object_json ''ring'' (box_json 9 10 11 12)]]"
  let ?es = "[AnnotationEntry ''a.png'' [ObjectAnnotation ''ring'' 1 2 3 4,
                                         ObjectAnnotation ''schizont'' 5 6 7 8],
              AnnotationEntry ''b.png'' [ObjectAnnotation ''ring'' 9 10 11 12]]"
  have enc: "list_all2 (encodes_entry (\<lambda>s. None)) ?js ?es"
    by (simp add: entry_json_def object_json_def box_json_def holds_int_def)
  have recs: "concat (map entry_records ?es) =
     [\<lparr>rec_image = JStr ''a.png'', rec_label = JStr ''ring'', rec_bbox = (1, 2, 3, 4)\<rparr>,
      \<lparr>rec_image = JStr ''a.png'', rec_label = JStr ''schizont'', rec_bbox = (5, 6, 7, 8)\<rparr>,
      \<lparr>rec_image = JStr ''b.png'', rec_label = JStr ''ring'', rec_bbox = (9, 10, 11, 12)\<rparr>]"
    by simp
  have n: "sum_list (map object_count ?es) = 3"
    by simp
  from flatten_one_record_per_object [OF enc]
  have "dataset_records (\<lambda>s. None) (JArr ?js) = Inr (concat (map entry_records ?es))"
    by (rule conjunct1)
  then have "dataset_records (\<lambda>s. None) (JArr ?js) =
     Inr [\<lparr>rec_image = JStr ''a.png'', rec_label = JStr ''ring'', rec_bbox = (1, 2, 3, 4)\<rparr>,
          \<lparr>rec_image = JStr ''a.png'', rec_label = JStr ''schizont'', rec_bbox = (5, 6, 7, 8)\<rparr>,
          \<lparr>rec_image = JStr ''b.png'', rec_label = JStr ''ring'', rec_bbox = (9, 10, 11, 12)\<rparr>]"
    by (simp only: recs)
  with enc n show ?thesis by (intro conjI)
qed

section \<open>Properties of the shuffle and the split\<close>







lemma shuffle_loop_draws:
  "draws randbelow i g = draws randbelow' i g' \<Longrightarrow>
   fst (shuffle_loop randbelow i g x) = fst (shuffle_loop randbelow' i g' x)"
proof (induction i arbitrary: g g' x)
  case 0
  then show ?case by simp
next
  case (Suc i)
  obtain j h where d: "randbelow g (Suc (Suc i)) = (j, h)"
    by (cases "randbelow g (Suc (Suc i))")
  obtain j' h' where d': "randbelow' g' (Suc (Suc i)) = (j', h')"
    by (cases "randbelow' g' (Suc (Suc i))")
  from Suc.prems d d' have "j = j'" and "draws randbelow i h = draws randbelow' i h'"
    by simp_all
  then show ?case
    using Suc.IH [of h h' "swap (Suc i) j x"] by (simp add: d d')
qed















lemma split_example_default:
  "split_dataset counter_randbelow 0 [10, 20, 30, 40 :: nat] (7 / 10) (3 / 20) =
     \<lparr>train_records = [30, 40], val_records = [20], test_records = [10],
      records_after = [30, 40, 20, 10], rng_after = 3\<rparr>"
  by code_simp

lemma split_example_later_state:
  "split_dataset counter_randbelow 3 [10, 20, 30, 40 :: nat] (7 / 10) (3 / 20) =
     \<lparr>train_records = [10, 30], val_records = [20], test_records = [40],
      records_after = [10, 30, 20, 40], rng_after = 6\<rparr>"
  by code_simp





lemma split_example_three_a:
  "split_dataset counter_randbelow 0 [10, 20, 30 :: nat] (7 / 10) (3 / 20) =
     \<lparr>train_records = [30, 20], val_records = [], test_records = [10],
      records_after = [30, 20, 10], rng_after = 2\<rparr>"
  by code_simp

lemma split_example_three_b:
  "split_dataset counter_randbelow 6 [10, 20, 30 :: nat] (7 / 10) (3 / 20) =
     \<lparr>train_records = [30, 20], val_records = [], test_records = [10],
      records_after = [30, 20, 10], rng_after = 8\<rparr>"
  by code_simp

lemma draws_example: "draws counter_randbelow 2 0 = draws counter_randbelow 2 6"
  by code_simp

text \<open>
  C2, as the claim states it, fails: \<open>split_dataset\<close> has no seed argument and draws from
  the generator of the process. A first call from the state 0 of the sample generator
  leaves the state 3; a second call with the same records and ratios, made from that
  state, returns other lists.
\<close>

theorem split_depends_on_generator_state:
  "rng_after (split_dataset counter_randbelow 0 [10, 20, 30, 40 :: nat] (7 / 10) (3 / 20)) = 3 \<and>
   train_records (split_dataset counter_randbelow 0 [10, 20, 30, 40 :: nat] (7 / 10) (3 / 20))
     = [30, 40] \<and>
   train_records (split_dataset counter_randbelow 3 [10, 20, 30, 40 :: nat] (7 / 10) (3 / 20))
     = [10, 30] \<and>
   test_records (split_dataset counter_randbelow 0 [10, 20, 30, 40 :: nat] (7 / 10) (3 / 20))
     = [10] \<and>
   test_records (split_dataset counter_randbelow 3 [10, 20, 30, 40 :: nat] (7 / 10) (3 / 20))
     = [40]"
  by (simp only: split_example_default split_example_later_state split_outcome.simps simp_thms)

text \<open>
  C2, amended. The lists that \<open>split_dataset\<close> returns, and the order it leaves in
  the caller's list, are a function of the records, the ratios and the numbers the
  generator draws during the shuffle: two calls with the same records and ratios in
  which the generator draws the same numbers, as it does from the same state, return
  the same train, validation and test lists.
\<close>

theorem split_deterministic_in_draws:
  assumes "draws randbelow (length records - 1) g = draws randbelow (length records - 1) g'"
  shows "train_records (split_dataset randbelow g records train_ratio val_ratio) =
           train_records (split_dataset randbelow g' records train_ratio val_ratio) \<and>
         val_records (split_dataset randbelow g records train_ratio val_ratio) =
           val_records (split_dataset randbelow g' records train_ratio val_ratio) \<and>
         test_records (split_dataset randbelow g records train_ratio val_ratio) =
           test_records (split_dataset randbelow g' records train_ratio val_ratio) \<and>
         records_after (split_dataset randbelow g records train_ratio val_ratio) =
           records_after (split_dataset randbelow g' records train_ratio val_ratio)"
proof -
  have "fst (shuffle randbelow g records) = fst (shuffle randbelow g' records)"
    unfolding shuffle_def using assms by (rule shuffle_loop_draws)
  then show ?thesis
    by (simp add: split_dataset_def case_prod_beta Let_def)
qed

theorem split_deterministic_in_draws_witness:
  "draws counter_randbelow (length [10, 20, 30 :: nat] - 1) 0 =
     draws counter_randbelow (length [10, 20, 30 :: nat] - 1) 6 \<and>
   train_records (split_dataset counter_randbelow 0 [10, 20, 30 :: nat] (7 / 10) (3 / 20)) =
     train_records (split_dataset counter_randbelow 6 [10, 20, 30 :: nat] (7 / 10) (3 / 20)) \<and>
   train_records (split_dataset counter_randbelow 0 [10, 20, 30 :: nat] (7 / 10) (3 / 20)) =
     [30, 20] \<and>
   rng_after (split_dataset counter_randbelow 0 [10, 20, 30 :: nat] (7 / 10) (3 / 20)) \<noteq>
     rng_after (split_dataset counter_randbelow 6 [10, 20, 30 :: nat] (7 / 10) (3 / 20))"
proof -
  have l: "length [10, 20, 30 :: nat] - 1 = 2" by simp
  have d: "draws counter_randbelow (length [10, 20, 30 :: nat] - 1) 0 =
     draws counter_randbelow (length [10, 20, 30 :: nat] - 1) 6"
    unfolding l by (rule draws_example)
  from split_deterministic_in_draws [OF d, of "7 / 10" "3 / 20"]
  have "train_records (split_dataset counter_randbelow 0 [10, 20, 30 :: nat] (7 / 10) (3 / 20)) =
     train_records (split_dataset counter_randbelow 6 [10, 20, 30 :: nat] (7 / 10) (3 / 20))"
    by (rule conjunct1)
  moreover have "train_records (split_dataset counter_randbelow 0 [10, 20, 30 :: nat] (7 / 10) (3 / 20)) =
     [30, 20]"
    by (simp only: split_example_three_a split_outcome.simps)
  moreover have "rng_after (split_dataset counter_randbelow 0 [10, 20, 30 :: nat] (7 / 10) (3 / 20)) \<noteq>
     rng_after (split_dataset counter_randbelow 6 [10, 20, 30 :: nat] (7 / 10) (3 / 20))"
    by (simp add: split_example_three_a split_example_three_b)
  ultimately show ?thesis using d by (intro conjI)
qed







section \<open>Properties of the sampling weights\<close>

lemma fold_count:
  "fold (\<lambda>x c. c(x := c x + 1)) xs c0 l = c0 l + length (filter (\<lambda>x. x = l) xs)"
  by (induction xs arbitrary: c0) simp_all

lemma Counter_counts: "Counter xs l = length (filter (\<lambda>x. x = l) xs)"
  using fold_count [of xs "\<lambda>_. 0" l] by (simp add: Counter_def)

lemma Counter_labels:
  "Counter (map rec_label train) l = length (filter (\<lambda>s. rec_label s = l) train)"
  by (simp add: Counter_counts filter_map comp_def)

lemma weights_of_positive:
  "(\<And>r. r \<in> set rs \<Longrightarrow> 0 < label_counts (rec_label r)) \<Longrightarrow>
   weights_of label_counts rs = Inr (map (\<lambda>r. 1 / of_nat (label_counts (rec_label r))) rs)"
  by (induction rs) (simp_all add: and_then_def truediv_def)

lemma own_label_counted:
  "r \<in> set train \<Longrightarrow> 0 < length (filter (\<lambda>s. rec_label s = rec_label r) train)"
  by (auto simp: filter_empty_conv)

lemma weights_closed_form:
  "weights train =
     Inr (map (\<lambda>r. 1 / of_nat (length (filter (\<lambda>s. rec_label s = rec_label r) train))) train)"
proof -
  have "weights_of (Counter (map rec_label train)) train =
        Inr (map (\<lambda>r. 1 / of_nat (Counter (map rec_label train) (rec_label r))) train)"
    by (rule weights_of_positive) (simp only: Counter_labels own_label_counted)
  then show ?thesis
    by (simp add: weights_def Let_def Counter_labels)
qed

lemma label_total_closed_form:
  "label_total l train (map f train) = sum_list (map f (filter (\<lambda>r. rec_label r = l) train))"
proof -
  have "filter (\<lambda>(r, w). rec_label r = l) (zip train (map f train)) =
        map (\<lambda>r. (r, f r)) (filter (\<lambda>r. rec_label r = l) train)"
    by (induction train) simp_all
  then show ?thesis
    by (simp add: label_total_def comp_def)
qed

text \<open>
  C3. \<open>weights\<close> raises nothing and returns one weight per training record, in the
  order of the records: for each record, 1 divided by the number of records of the
  training list that carry its label. With one schizont and one ring record both
  weights are 1; with two ring records both are 1/2.
\<close>

theorem weights_inverse_label_count:
  "weights train =
     Inr (map (\<lambda>r. 1 / of_nat (length (filter (\<lambda>s. rec_label s = rec_label r) train))) train) \<and>
   weights [\<lparr>rec_image = ''a.png'', rec_label = ''schizont'', rec_bbox = (0, 0, 5, 5)\<rparr>,
            \<lparr>rec_image = ''a.png'', rec_label = ''ring'', rec_bbox = (7, 7, 5, 5)\<rparr>] =
     Inr [1, 1] \<and>
   weights [\<lparr>rec_image = ''a.png'', rec_label = ''ring'', rec_bbox = (0, 0, 5, 5)\<rparr>,
            \<lparr>rec_image = ''b.png'', rec_label = ''ring'', rec_bbox = (7, 7, 5, 5)\<rparr>] =
     Inr [1 / 2, 1 / 2]"
  by (simp add: weights_closed_form)

text \<open>
  C5. The weights of the records of one label add up to 1, for every label that occurs
  in the training list; so the totals of any two labels that occur are equal.
\<close>

theorem weights_balance_labels:
  assumes "weights train = Inr ws" and "l \<in> rec_label ` set train"
  shows "label_total l train ws = 1 \<and>
         (\<forall>l' \<in> rec_label ` set train. label_total l' train ws = label_total l train ws)"
proof -
  let ?f = "\<lambda>r. 1 / rat_of_nat (length (filter (\<lambda>s. rec_label s = rec_label r) train))"
  have ws: "ws = map ?f train"
    using assms(1) by (simp add: weights_closed_form)
  have one: "label_total k train ws = 1" if "k \<in> rec_label ` set train" for k
  proof -
    let ?same = "filter (\<lambda>r. rec_label r = k) train"
    have pos: "0 < length ?same"
      using that by (auto simp: filter_empty_conv)
    have "map ?f ?same = map (\<lambda>r. 1 / rat_of_nat (length ?same)) ?same"
      by (rule map_cong) simp_all
    then have "label_total k train ws = sum_list (map (\<lambda>r. 1 / rat_of_nat (length ?same)) ?same)"
      by (simp only: ws label_total_closed_form)
    also have "\<dots> = rat_of_nat (length ?same) * (1 / rat_of_nat (length ?same))"
      by (simp only: sum_list_triv)
    also have "\<dots> = 1"
      using pos by simp
    finally show ?thesis .
  qed
  from one assms(2) show ?thesis by simp
qed

theorem weights_balance_labels_witness:
  "weights [\<lparr>rec_image = ''a.png'', rec_label = ''ring'', rec_bbox = (0, 0, 5, 5)\<rparr>,
            \<lparr>rec_image = ''a.png'', rec_label = ''schizont'', rec_bbox = (7, 7, 5, 5)\<rparr>,
            \<lparr>rec_image = ''b.png'', rec_label = ''ring'', rec_bbox = (1, 1, 5, 5)\<rparr>,
            \<lparr>rec_image = ''b.png'', rec_label = ''ring'', rec_bbox = (9, 9, 5, 5)\<rparr>] =
     Inr [1 / 3, 1, 1 / 3, 1 / 3] \<and>
   ''ring'' \<in> rec_label ` set
           [\<lparr>rec_image = ''a.png'', rec_label = ''ring'', rec_bbox = (0, 0, 5, 5)\<rparr>,
            \<lparr>rec_image = ''a.png'', rec_label = ''schizont'', rec_bbox = (7, 7, 5, 5)\<rparr>,
            \<lparr>rec_image = ''b.png'', rec_label = ''ring'', rec_bbox = (1, 1, 5, 5)\<rparr>,
            \<lparr>rec_image = ''b.png'', rec_label = ''ring'', rec_bbox = (9, 9, 5, 5)\<rparr>] \<and>
   label_total ''ring''
           [\<lparr>rec_image = ''a.png'', rec_label = ''ring'', rec_bbox = (0, 0, 5, 5)\<rparr>,
            \<lparr>rec_image = ''a.png'', rec_label = ''schizont'', rec_bbox = (7, 7, 5, 5)\<rparr>,
            \<lparr>rec_image = ''b.png'', rec_label = ''ring'', rec_bbox = (1, 1, 5, 5)\<rparr>,
            \<lparr>rec_image = ''b.png'', rec_label = ''ring'', rec_bbox = (9, 9, 5, 5)\<rparr>]
           [1 / 3, 1, 1 / 3, 1 / 3] = 1"
proof -
  let ?train = "[\<lparr>rec_image = ''a.png'', rec_label = ''ring'', rec_bbox = (0, 0, 5, 5)\<rparr>,
            \<lparr>rec_image = ''a.png'', rec_label = ''schizont'', rec_bbox = (7, 7, 5, 5)\<rparr>,
            \<lparr>rec_image = ''b.png'', rec_label = ''ring'', rec_bbox = (1, 1, 5, 5)\<rparr>,
            \<lparr>rec_image = ''b.png'', rec_label = ''ring'', rec_bbox = (9, 9, 5, 5)\<rparr>]"
  have w: "weights ?train = Inr [1 / 3, 1, 1 / 3, 1 / 3]"
    by (simp add: weights_closed_form)
  have m: "''ring'' \<in> rec_label ` set ?train"
    by simp
  from weights_balance_labels [OF w m] have "label_total ''ring'' ?train [1 / 3, 1, 1 / 3, 1 / 3] = 1"
    by (rule conjunct1)
  with w m show ?thesis by (intro conjI)
qed


section \<open>Exceptions of the flattener\<close>










section \<open>Properties of fetching a crop\<close>

lemma list_item_in_range:
  "0 \<le> idx \<Longrightarrow> idx < int (length records) \<Longrightarrow> list_item records idx = Inr (records ! nat idx)"
  by (simp add: list_item_def)

text \<open>
  C8, as the claim states it, fails: \<open>getitem\<close> checks no bounds and names no exception
  of its own. For an image of 10 by 10 pixels and a record whose box starts at (5, 5)
  with width and height 20, the box exceeds the image, and with a crop that pads, as the
  imaging library's does, \<open>getitem\<close> returns the crop of 20 by 20 pixels with the index
  of the label. For an image that the store lacks, the exception is the library's.
\<close>

theorem getitem_returns_out_of_bounds_crop:
  "\<not> box_within (5, 5, 20, 20) (10, 10) \<and>
   getitem (store_open [(''a.png'', (10, 10))]) padded_crop None [''ring'' \<mapsto> 0]
     [\<lparr>rec_image = ''a.png'', rec_label = ''ring'', rec_bbox = (5, 5, 20, 20)\<rparr>] 0 =
     Inr ((20, 20), 0) \<and>
   getitem (store_open [(''a.png'', (10, 10))]) padded_crop None [''ring'' \<mapsto> 0]
     [\<lparr>rec_image = ''b.png'', rec_label = ''ring'', rec_bbox = (0, 0, 5, 5)\<rparr>] 0 =
     Inl (LibraryError ''FileNotFoundError'')"
  by (simp add: box_within_def getitem_def list_item_def lib_def store_open_def padded_crop_def
      run_transform_def and_then_def)

text \<open>
  C8, amended. Fetching a record opens the image and crops it to the box
  \<open>(x, y, x + w, y + h)\<close> through the imaging library and checks nothing itself. When
  the library raises on opening, on cropping or in the transform, the fetch fails with
  the library's exception. When the library opens the image and returns a crop for the
  box, the fetch returns the transformed crop with the index of the label, whether or
  not the box lies within the image.
\<close>

theorem getitem_outcome_is_the_librarys:
  assumes "0 \<le> idx" and "idx < int (length records)"
    and "rec_bbox (records ! nat idx) = (x, y, w, h)"
  shows "(open_rgb (rec_image (records ! nat idx)) = Inl e \<longrightarrow>
            getitem open_rgb crop transform label2idx records idx = Inl (LibraryError e)) \<and>
         (open_rgb (rec_image (records ! nat idx)) = Inr img \<and>
          crop img (x, y, x + w, y + h) = Inl e \<longrightarrow>
            getitem open_rgb crop transform label2idx records idx = Inl (LibraryError e)) \<and>
         (open_rgb (rec_image (records ! nat idx)) = Inr img \<and>
          crop img (x, y, x + w, y + h) = Inr cropped \<and>
          run_transform transform cropped = Inl e \<longrightarrow>
            getitem open_rgb crop transform label2idx records idx = Inl (LibraryError e)) \<and>
         (open_rgb (rec_image (records ! nat idx)) = Inr img \<and>
          crop img (x, y, x + w, y + h) = Inr cropped \<and>
          run_transform transform cropped = Inr out \<and>
          label2idx (rec_label (records ! nat idx)) = Some k \<longrightarrow>
            getitem open_rgb crop transform label2idx records idx = Inr (out, k))"
  using assms(3)
  by (simp add: getitem_def list_item_in_range [OF assms(1,2)] lib_def and_then_def)

theorem getitem_outcome_is_the_librarys_witness:
  "(0::int) \<le> 0 \<and>
   (0::int) < int (length [\<lparr>rec_image = ''a.png'', rec_label = ''ring'', rec_bbox = (5, 5, 20, 20)\<rparr>]) \<and>
   store_open [(''a.png'', (10, 10))] ''a.png'' = Inr (10, 10) \<and>
   padded_crop (10, 10) (5, 5, 5 + 20, 5 + 20) = Inr (20, 20) \<and>
   run_transform None (20 :: nat, 20 :: nat) = (Inr (20, 20) :: string + nat \<times> nat) \<and>
   [''ring'' \<mapsto> 0 :: nat] ''ring'' = Some 0 \<and>
   getitem (store_open [(''a.png'', (10, 10))]) padded_crop None [''ring'' \<mapsto> 0]
     [\<lparr>rec_image = ''a.png'', rec_label = ''ring'', rec_bbox = (5, 5, 20, 20)\<rparr>] 0 =
     Inr ((20, 20), 0) \<and>
   store_open [(''a.png'', (10, 10))] ''b.png'' = Inl ''FileNotFoundError'' \<and>
   getitem (store_open [(''a.png'', (10, 10))]) padded_crop None [''ring'' \<mapsto> 0]
     [\<lparr>rec_image = ''b.png'', rec_label = ''ring'', rec_bbox = (5, 5, 20, 20)\<rparr>] 0 =
     Inl (LibraryError ''FileNotFoundError'')"
proof -
  let ?records = "[\<lparr>rec_image = ''a.png'', rec_label = ''ring'',
    rec_bbox = (5 :: int, 5 :: int, 20 :: int, 20 :: int)\<rparr>]"
  let ?missing = "[\<lparr>rec_image = ''b.png'', rec_label = ''ring'',
    rec_bbox = (5 :: int, 5 :: int, 20 :: int, 20 :: int)\<rparr>]"
  have 1: "(0::int) \<le> 0" and 2: "(0::int) < int (length ?records)"
    and m2: "(0::int) < int (length ?missing)"
    by simp_all
  have 3: "rec_bbox (?records ! nat 0) = (5, 5, 20, 20)"
    and m3: "rec_bbox (?missing ! nat 0) = (5, 5, 20, 20)"
    by simp_all
  have 4: "store_open [(''a.png'', (10, 10))] (rec_image (?records ! nat 0)) = Inr (10, 10)"
    by (simp add: store_open_def)
  have 5: "padded_crop (10, 10) (5, 5, 5 + 20, 5 + 20) = Inr (20, 20)"
    by (simp add: padded_crop_def)
  have 6: "run_transform None (20 :: nat, 20 :: nat) = (Inr (20, 20) :: string + nat \<times> nat)"
    by (simp add: run_transform_def)
  have 7: "[''ring'' \<mapsto> 0 :: nat] (rec_label (?records ! nat 0)) = Some 0"
    by simp
  have 9: "store_open [(''a.png'', (10, 10))] (rec_image (?missing ! nat 0)) =
     Inl ''FileNotFoundError''"
    by (simp add: store_open_def)
  note t = getitem_outcome_is_the_librarys [OF 1 2 3,
      where open_rgb = "store_open [(''a.png'', (10, 10))]" and crop = padded_crop
        and transform = None and ?label2idx = "[''ring'' \<mapsto> 0]"
        and img = "(10, 10)" and cropped = "(20, 20)" and out = "(20, 20)" and k = 0]
  note u = getitem_outcome_is_the_librarys [OF 1 m2 m3,
      where open_rgb = "store_open [(''a.png'', (10, 10))]" and crop = padded_crop
        and transform = None and ?label2idx = "[''ring'' \<mapsto> 0]"
        and e = "''FileNotFoundError''"]
  from t 4 5 6 7 have 8: "getitem (store_open [(''a.png'', (10, 10))]) padded_crop None
     [''ring'' \<mapsto> 0] ?records 0 = Inr ((20, 20), 0)"
    by blast
  from u 9 have 10: "getitem (store_open [(''a.png'', (10, 10))]) padded_crop None
     [''ring'' \<mapsto> 0] ?missing 0 = Inl (LibraryError ''FileNotFoundError'')"
    by blast
  from 4 have o: "store_open [(''a.png'', (10, 10))] ''a.png'' = Inr (10, 10)"
    by simp
  from 7 have l: "[''ring'' \<mapsto> 0 :: nat] ''ring'' = Some 0"
    by simp
  from 9 have m: "store_open [(''a.png'', (10, 10))] ''b.png'' = Inl ''FileNotFoundError''"
    by simp
  from 1 2 o 5 6 l 8 m 10 show ?thesis by (intro conjI)
qed

section \<open>Properties of the report\<close>

lemma count_cells:
  fixes t p K :: nat
  assumes "t < K" and "p < K"
  shows "(\<Sum>i<K. \<Sum>j<K. if t = i \<and> p = j then 1 else 0) = (1::nat)"
proof -
  have "(\<Sum>j<K. if t = i \<and> p = j then 1 else 0) = (if t = i then 1 else (0::nat))" for i
    using assms(2) by (cases "t = i") simp_all
  then have "(\<Sum>i<K. \<Sum>j<K. if t = i \<and> p = j then 1 else 0) = (\<Sum>i<K. if t = i then 1 else (0::nat))"
    by simp
  also have "\<dots> = 1"
    using assms(1) by simp
  finally show ?thesis .
qed

lemma cells_add_up:
  fixes pairs :: "(nat \<times> nat) list" and K :: nat
  shows "\<forall>(t, p) \<in> set pairs. t < K \<and> p < K \<Longrightarrow>
   (\<Sum>i<K. \<Sum>j<K. length (filter (\<lambda>(t, p). t = i \<and> p = j) pairs)) = length pairs"
proof (induction pairs)
  case Nil
  then show ?case by simp
next
  case (Cons tp pairs)
  obtain t p where tp: "tp = (t, p)" by (cases tp)
  from Cons.prems tp have tK: "t < K" and pK: "p < K" by simp_all
  have "(\<Sum>i<K. \<Sum>j<K. length (filter (\<lambda>(t, p). t = i \<and> p = j) (tp # pairs))) =
        (\<Sum>i<K. \<Sum>j<K. (if t = i \<and> p = j then 1 else 0) +
                         length (filter (\<lambda>(t, p). t = i \<and> p = j) pairs))"
    by (intro sum.cong refl) (simp add: tp)
  also have "\<dots> = (\<Sum>i<K. \<Sum>j<K. if t = i \<and> p = j then 1 else 0) +
                   (\<Sum>i<K. \<Sum>j<K. length (filter (\<lambda>(t, p). t = i \<and> p = j) pairs))"
    by (simp only: sum.distrib)
  also have "\<dots> = 1 + length pairs"
    using Cons.IH Cons.prems count_cells [OF tK pK] by simp
  finally show ?case by simp
qed

lemma matrix_total:
  "sum_list (map sum_list (confusion_matrix K pairs)) =
   (\<Sum>i<K. \<Sum>j<K. length (filter (\<lambda>(t, p). t = i \<and> p = j) pairs))"
  by (simp add: confusion_matrix_def comp_def interv_sum_list_conv_sum_set_nat atLeast0LessThan)

text \<open>
  C9. For pairs of labels below \<open>K\<close>, the confusion matrix has \<open>K\<close> rows of \<open>K\<close>
  entries, the entry in row \<open>i\<close> and column \<open>j\<close> is the number of pairs with true label
  \<open>i\<close> and predicted label \<open>j\<close>, and the entries add up to the number of pairs. The
  accuracy of a sequence that is not empty is the number of pairs whose labels agree
  divided by the number of pairs. For the true labels 0, 0, 1, 1 and the predictions
  0, 1, 1, 1 the matrix is [[1, 1], [0, 2]] and the accuracy 3/4.
\<close>

theorem confusion_matrix_counts_pairs:
  assumes "\<forall>(t, p) \<in> set pairs. t < K \<and> p < K"
  shows "length (confusion_matrix K pairs) = K \<and>
         (\<forall>row \<in> set (confusion_matrix K pairs). length row = K) \<and>
         (\<forall>i j. i < K \<and> j < K \<longrightarrow>
            confusion_matrix K pairs ! i ! j =
              length (filter (\<lambda>(t, p). t = i \<and> p = j) pairs)) \<and>
         sum_list (map sum_list (confusion_matrix K pairs)) = length pairs \<and>
         (pairs \<noteq> [] \<longrightarrow>
            accuracy_score pairs =
              Some (of_nat (length (filter (\<lambda>(t, p). t = p) pairs)) / of_nat (length pairs))) \<and>
         confusion_matrix 2 (zip [0, 0, 1, 1] [0, 1, 1, 1]) = [[1, 1], [0, 2]] \<and>
         accuracy_score (zip [0, 0, 1, 1] [0, 1, 1, 1]) = Some (3 / 4)"
proof -
  have dims: "length (confusion_matrix K pairs) = K \<and>
         (\<forall>row \<in> set (confusion_matrix K pairs). length row = K)"
    by (auto simp: confusion_matrix_def)
  have cell: "\<forall>i j. i < K \<and> j < K \<longrightarrow>
            confusion_matrix K pairs ! i ! j =
              length (filter (\<lambda>(t, p). t = i \<and> p = j) pairs)"
    by (simp add: confusion_matrix_def)
  have total: "sum_list (map sum_list (confusion_matrix K pairs)) = length pairs"
    using cells_add_up [OF assms] by (simp only: matrix_total)
  have acc: "pairs \<noteq> [] \<longrightarrow>
            accuracy_score pairs =
              Some (of_nat (length (filter (\<lambda>(t, p). t = p) pairs)) / of_nat (length pairs))"
    by (simp add: accuracy_score_def)
  have ex1: "confusion_matrix 2 (zip [0, 0, 1, 1] [0, 1, 1, 1]) = [[1, 1], [0, 2]]"
    by code_simp
  have ex2: "accuracy_score (zip [0, 0, 1, 1] [0, 1, 1, 1]) = Some (3 / 4)"
    by code_simp
  from dims cell total acc ex1 ex2 show ?thesis by (intro conjI) blast+
qed

theorem confusion_matrix_counts_pairs_witness:
  "list_all (\<lambda>(t, p). t < 3 \<and> p < (3::nat)) (zip [0, 0, 2, 2 :: nat] [0, 2, 2, 2 :: nat]) \<and>
   confusion_matrix 3 (zip [0, 0, 2, 2] [0, 2, 2, 2]) = [[1, 0, 1], [0, 0, 0], [0, 0, 2]] \<and>
   sum_list (map sum_list (confusion_matrix 3 (zip [0, 0, 2, 2] [0, 2, 2, 2]))) =
     length (zip [0, 0, 2, 2 :: nat] [0, 2, 2, 2 :: nat]) \<and>
   accuracy_score (zip [0, 0, 2, 2] [0, 2, 2, 2]) = Some (3 / 4)"
proof -
  have h: "\<forall>(t, p) \<in> set (zip [0, 0, 2, 2 :: nat] [0, 2, 2, 2 :: nat]). t < 3 \<and> p < (3::nat)"
    by simp
  have m: "confusion_matrix 3 (zip [0, 0, 2, 2] [0, 2, 2, 2]) = [[1, 0, 1], [0, 0, 0], [0, 0, 2]]"
    by code_simp
  have a: "accuracy_score (zip [0, 0, 2, 2] [0, 2, 2, 2]) = Some (3 / 4)"
    by code_simp
  from confusion_matrix_counts_pairs [OF h]
  have s: "sum_list (map sum_list (confusion_matrix 3 (zip [0, 0, 2, 2] [0, 2, 2, 2]))) =
     length (zip [0, 0, 2, 2 :: nat] [0, 2, 2, 2 :: nat])"
    by blast
  have "list_all (\<lambda>(t, p). t < 3 \<and> p < (3::nat)) (zip [0, 0, 2, 2 :: nat] [0, 2, 2, 2 :: nat])"
    by simp
  with m s a show ?thesis by (intro conjI)
qed

end
